theory Spec2Isabelle
  imports Complex_Main "HOL-Library.Code_Target_Nat"
begin

section \<open>The currency display hook of \<^verbatim>\<open>ui/hooks/useCurrencyDisplay.js\<close>\<close>

text \<open>
  The hook takes a hexadecimal amount and an options object, reads three values of the
  store (the user's currency, the native currency, the conversion rate) and returns the
  pair of the display string and its parts. Its value is computed inside \<^verbatim>\<open>useMemo\<close>;
  the dependency list names every variable the callback reads, so the memoised value is
  the value of the callback on the current arguments, and the model calls it directly.

  JavaScript values are modelled by their declared types: a string that may be
  \<^verbatim>\<open>undefined\<close> is a \<open>string option\<close>, a number that may be \<^verbatim>\<open>undefined\<close> is an
  option of a number, \<^verbatim>\<open>null\<close> as the value of the hook is \<open>None\<close>. Strings are
  lists of 8-bit characters, which covers the ASCII strings the hook is used with.
\<close>

subsection \<open>JavaScript primitives used by the hook\<close>

text \<open>A thrown exception is a value: every call that may throw returns a sum.\<close>

datatype js_error = JsError string

definition bind_result :: "js_error + 'a \<Rightarrow> ('a \<Rightarrow> js_error + 'b) \<Rightarrow> js_error + 'b" where
  "bind_result r f = (case r of Inl e \<Rightarrow> Inl e | Inr x \<Rightarrow> f x)"

text \<open>Truthiness: \<^verbatim>\<open>undefined\<close> and the empty string are falsy, every other string is truthy;
  \<^verbatim>\<open>undefined\<close> and zero are the falsy numbers of the model.\<close>

definition truthy_string :: "string option \<Rightarrow> bool" where
  "truthy_string v = (case v of None \<Rightarrow> False | Some s \<Rightarrow> s \<noteq> [])"

definition truthy_int :: "int option \<Rightarrow> bool" where
  "truthy_int v = (case v of None \<Rightarrow> False | Some n \<Rightarrow> n \<noteq> 0)"

definition truthy_rat :: "rat option \<Rightarrow> bool" where
  "truthy_rat v = (case v of None \<Rightarrow> False | Some r \<Rightarrow> r \<noteq> 0)"

text \<open>\<^verbatim>\<open>a || b\<close> is \<^verbatim>\<open>a\<close> when \<^verbatim>\<open>a\<close> is truthy and \<^verbatim>\<open>b\<close> otherwise.\<close>

definition or_string :: "string option \<Rightarrow> string option \<Rightarrow> string option" where
  "or_string a b = (if truthy_string a then a else b)"

definition or_int :: "int option \<Rightarrow> int \<Rightarrow> int" where
  "or_int a b = (if truthy_int a then the a else b)"

text \<open>A template literal renders \<^verbatim>\<open>null\<close> as the text \<^verbatim>\<open>null\<close>.\<close>

definition template_string :: "string option \<Rightarrow> string" where
  "template_string v = (case v of None \<Rightarrow> ''null'' | Some s \<Rightarrow> s)"

text \<open>\<^verbatim>\<open>String.prototype.toUpperCase\<close> on ASCII strings: the letters a to z are mapped to
  A to Z, every other character is kept.\<close>

definition toUpperCase_char :: "char \<Rightarrow> char" where
  "toUpperCase_char c =
     (let n = (of_char c :: nat) in if 97 \<le> n \<and> n \<le> 122 then char_of (n - 32) else c)"

definition toUpperCase :: "string \<Rightarrow> string" where
  "toUpperCase s = map toUpperCase_char s"

subsection \<open>\<^verbatim>\<open>Number(string)\<close>\<close>

text \<open>
  \<^verbatim>\<open>Number\<close> applied to a string trims white space and reads a numeric literal: the empty
  string is 0, \<^verbatim>\<open>0x\<close>, \<^verbatim>\<open>0o\<close> and \<^verbatim>\<open>0b\<close> introduce unsigned hexadecimal, octal and binary
  integers, anything else must be an optionally signed decimal literal (\<^verbatim>\<open>Infinity\<close>, or
  digits with an optional fraction and exponent); every other string is \<^verbatim>\<open>NaN\<close>.
  The model keeps the exact value of the literal as sign, coefficient and decimal
  exponent. The hook only compares the number with 0: the double nearest to the literal
  is zero exactly when its magnitude is at most \<open>2 ^ -1075\<close>, half the least positive
  double.
\<close>

datatype js_number = NaN | Infinity bool | Finite bool nat int

definition isStrWhiteSpaceChar :: "char \<Rightarrow> bool" where
  "isStrWhiteSpaceChar c = ((of_char c :: nat) \<in> {9, 10, 11, 12, 13, 32})"

definition trimString :: "string \<Rightarrow> string" where
  "trimString s = rev (dropWhile isStrWhiteSpaceChar (rev (dropWhile isStrWhiteSpaceChar s)))"

definition digitValue :: "char \<Rightarrow> nat option" where
  "digitValue c =
     (let n = (of_char c :: nat) in
      if 48 \<le> n \<and> n \<le> 57 then Some (n - 48)
      else if 97 \<le> n \<and> n \<le> 102 then Some (n - 87)
      else if 65 \<le> n \<and> n \<le> 70 then Some (n - 55)
      else None)"

fun parseDigitsAcc :: "nat \<Rightarrow> nat \<Rightarrow> string \<Rightarrow> nat option" where
  "parseDigitsAcc b acc [] = Some acc"
| "parseDigitsAcc b acc (c # cs) =
     (case digitValue c of
        None \<Rightarrow> None
      | Some d \<Rightarrow> if d < b then parseDigitsAcc b (acc * b + d) cs else None)"

text \<open>One or more digits of base \<open>b\<close>.\<close>

definition parseDigits :: "nat \<Rightarrow> string \<Rightarrow> nat option" where
  "parseDigits b s = (if s = [] then None else parseDigitsAcc b 0 s)"

definition parseSignedInteger :: "string \<Rightarrow> int option" where
  "parseSignedInteger s =
     (case s of
        [] \<Rightarrow> None
      | c # cs \<Rightarrow>
          if c = CHR ''+'' then map_option int (parseDigits 10 cs)
          else if c = CHR ''-'' then map_option (\<lambda>n. - int n) (parseDigits 10 cs)
          else map_option int (parseDigits 10 s))"

definition isExponentIndicator :: "char \<Rightarrow> bool" where
  "isExponentIndicator c = (c = CHR ''e'' \<or> c = CHR ''E'')"

text \<open>An unsigned decimal literal: \<^verbatim>\<open>Infinity\<close>, \<^verbatim>\<open>digits\<close>, \<^verbatim>\<open>digits.\<close>, \<^verbatim>\<open>digits.digits\<close> or
  \<^verbatim>\<open>.digits\<close>, each of the last four with an optional exponent part.\<close>

definition parseUnsignedDecimal :: "bool \<Rightarrow> string \<Rightarrow> js_number" where
  "parseUnsignedDecimal neg s =
     (if s = ''Infinity'' then Infinity neg
      else
        let mantissa = takeWhile (\<lambda>c. \<not> isExponentIndicator c) s;
            exponentPart = dropWhile (\<lambda>c. \<not> isExponentIndicator c) s;
            intDigits = takeWhile (\<lambda>c. c \<noteq> CHR ''.'') mantissa;
            fracPart = dropWhile (\<lambda>c. c \<noteq> CHR ''.'') mantissa;
            fracDigits = (case fracPart of [] \<Rightarrow> [] | _ # ds \<Rightarrow> ds);
            exponent = (case exponentPart of [] \<Rightarrow> Some 0 | _ # ds \<Rightarrow> parseSignedInteger ds)
        in
          if intDigits = [] \<and> fracDigits = [] then NaN
          else
            (case (parseDigitsAcc 10 0 (intDigits @ fracDigits), exponent) of
               (Some m, Some e) \<Rightarrow> Finite neg m (e - int (length fracDigits))
             | _ \<Rightarrow> NaN))"

definition Number :: "string \<Rightarrow> js_number" where
  "Number s =
     (let t = trimString s in
      case t of
        [] \<Rightarrow> Finite False 0 0
      | c # cs \<Rightarrow>
          if c = CHR ''0'' \<and> cs \<noteq> [] \<and> hd cs \<in> {CHR ''x'', CHR ''X''} then
            (case parseDigits 16 (tl cs) of None \<Rightarrow> NaN | Some n \<Rightarrow> Finite False n 0)
          else if c = CHR ''0'' \<and> cs \<noteq> [] \<and> hd cs \<in> {CHR ''o'', CHR ''O''} then
            (case parseDigits 8 (tl cs) of None \<Rightarrow> NaN | Some n \<Rightarrow> Finite False n 0)
          else if c = CHR ''0'' \<and> cs \<noteq> [] \<and> hd cs \<in> {CHR ''b'', CHR ''B''} then
            (case parseDigits 2 (tl cs) of None \<Rightarrow> NaN | Some n \<Rightarrow> Finite False n 0)
          else if c = CHR ''+'' then parseUnsignedDecimal False cs
          else if c = CHR ''-'' then parseUnsignedDecimal True cs
          else parseUnsignedDecimal False t)"

text \<open>\<^verbatim>\<open>x !== 0\<close> on a number: \<^verbatim>\<open>NaN\<close> and the infinities differ from 0, a finite literal
  differs from 0 unless its double is \<open>+0\<close> or \<open>-0\<close>.\<close>

definition strictNotEqualZero :: "js_number \<Rightarrow> bool" where
  "strictNotEqualZero x =
     (case x of
        NaN \<Rightarrow> True
      | Infinity _ \<Rightarrow> True
      | Finite _ m e \<Rightarrow>
          \<not> (m = 0 \<or> (e < 0 \<and> m * 2 ^ 1075 \<le> 10 ^ nat (- e))))"

subsection \<open>Data of the hook\<close>

text \<open>The options object \<^verbatim>\<open>UseCurrencyOptions\<close>, with the two fields read from the rest
  (\<^verbatim>\<open>opts.hideLabel\<close>, \<^verbatim>\<open>opts.suffix\<close>). \<open>hideLabel\<close> holds the truthiness of the flag.\<close>

record options =
  displayValue :: "string option"
  prefix :: "string option"
  numberOfDecimals :: "int option"
  denomination :: "string option"
  currency :: "string option"
  hideLabel :: bool
  suffix :: "string option"

text \<open>The three values the selectors read from the store.\<close>

record store =
  currentCurrency :: "string option"
  nativeCurrency :: "string option"
  conversionRate :: "rat option"

text \<open>\<^verbatim>\<open>CurrencyDisplayParts\<close>, the second component of the result.\<close>

record parts =
  prefix_part :: "string option"
  value_part :: "string option"
  suffix_part :: "string option"

text \<open>The argument object of \<^verbatim>\<open>getValueFromWeiHex\<close>.\<close>

record wei_hex_args =
  arg_value :: string
  arg_fromCurrency :: "string option"
  arg_toCurrency :: "string option"
  arg_conversionRate :: "rat option"
  arg_numberOfDecimals :: int
  arg_toDenomination :: "string option"

text \<open>
  The imports of the hook are not part of the sources at hand: the class \<^verbatim>\<open>Numeric\<close>,
  \<^verbatim>\<open>getValueFromWeiHex\<close>, \<^verbatim>\<open>formatCurrency\<close>, the table \<^verbatim>\<open>TEST_NETWORK_TICKER_MAP\<close>
  (of which the hook reads the values only) and the constants of \<^verbatim>\<open>EtherDenomination\<close>.
  The hook is modelled over any choice of them; \<open>'n\<close> is the type of \<^verbatim>\<open>Numeric\<close>
  objects, and every call may throw.
\<close>

record 'n collaborators =
  Numeric_new :: "string \<Rightarrow> nat \<Rightarrow> string \<Rightarrow> js_error + 'n"
  Numeric_toDenomination :: "'n \<Rightarrow> string \<Rightarrow> js_error + 'n"
  Numeric_round :: "'n \<Rightarrow> int \<Rightarrow> js_error + 'n"
  Numeric_toBase :: "'n \<Rightarrow> nat \<Rightarrow> js_error + 'n"
  Numeric_toString :: "'n \<Rightarrow> js_error + string"
  getValueFromWeiHex :: "wei_hex_args \<Rightarrow> js_error + string"
  formatCurrency :: "string \<Rightarrow> string option \<Rightarrow> js_error + string"
  TEST_NETWORK_TICKER_MAP_values :: "string list"
  EtherDenomination_WEI :: string
  EtherDenomination_ETH :: string

subsection \<open>The hook\<close>

definition MIN_DISPLAY_AMOUNT :: string where
  "MIN_DISPLAY_AMOUNT = ''<0.000001''"

definition DEFAULT_PRECISION_DECIMALS :: int where
  "DEFAULT_PRECISION_DECIMALS = 6"

text \<open>The chain \<^verbatim>\<open>new Numeric(inputValue, 16, WEI).toDenomination(d).round(n).toBase(10).toString()\<close>.\<close>

definition ethDisplayValue :: "'n collaborators \<Rightarrow> string \<Rightarrow> string \<Rightarrow> int \<Rightarrow> js_error + string" where
  "ethDisplayValue K inputValue d n =
     bind_result (Numeric_new K inputValue 16 (EtherDenomination_WEI K)) (\<lambda>x.
     bind_result (Numeric_toDenomination K x d) (\<lambda>x.
     bind_result (Numeric_round K x n) (\<lambda>x.
     bind_result (Numeric_toBase K x 10) (\<lambda>x.
     Numeric_toString K x))))"

text \<open>The call \<^verbatim>\<open>formatCurrency(getValueFromWeiHex({...}), currency)\<close>.\<close>

definition fiatDisplayValue :: "'n collaborators \<Rightarrow> wei_hex_args \<Rightarrow> string option \<Rightarrow> js_error + string" where
  "fiatDisplayValue K args c =
     bind_result (getValueFromWeiHex K args) (\<lambda>v. formatCurrency K v c)"

text \<open>The first branch of the callback of \<^verbatim>\<open>useMemo\<close>: the amount in the native
  currency, with \<^verbatim>\<open>MIN_DISPLAY_AMOUNT\<close> in place of a \<^verbatim>\<open>'0'\<close> that stands for an amount
  that is not zero.\<close>

definition nativeDisplayValue :: "'n collaborators \<Rightarrow> string \<Rightarrow> string \<Rightarrow> int \<Rightarrow> js_error + string" where
  "nativeDisplayValue K inputValue d n =
     bind_result (ethDisplayValue K inputValue d n) (\<lambda>e.
       Inr (if e = ''0'' \<and> inputValue \<noteq> [] \<and> strictNotEqualZero (Number inputValue)
            then MIN_DISPLAY_AMOUNT else e))"

text \<open>The callback of \<^verbatim>\<open>useMemo\<close>: the value of the display.\<close>

definition useCurrencyDisplay_value ::
  "'n collaborators \<Rightarrow> store \<Rightarrow> string \<Rightarrow> options \<Rightarrow> js_error + string option" where
  "useCurrencyDisplay_value K st inputValue opts =
     (let isUserPreferredCurrency = (currency opts = currentCurrency st) in
      if truthy_string (displayValue opts) then Inr (displayValue opts)
      else if currency opts = nativeCurrency st \<or>
              (\<not> isUserPreferredCurrency \<and> \<not> truthy_string (nativeCurrency st)) then
        bind_result
          (nativeDisplayValue K inputValue
             (the (or_string (denomination opts) (Some (EtherDenomination_ETH K))))
             (or_int (numberOfDecimals opts) DEFAULT_PRECISION_DECIMALS))
          (\<lambda>s. Inr (Some s))
      else if isUserPreferredCurrency \<and> truthy_rat (conversionRate st) then
        bind_result
          (fiatDisplayValue K
             \<lparr> arg_value = inputValue,
               arg_fromCurrency = nativeCurrency st,
               arg_toCurrency = currency opts,
               arg_conversionRate = conversionRate st,
               arg_numberOfDecimals = or_int (numberOfDecimals opts) 2,
               arg_toDenomination = denomination opts \<rparr>
             (currency opts))
          (\<lambda>s. Inr (Some s))
      else Inr None)"

text \<open>The suffix: nothing when the label is hidden, else the caller's suffix when it is
  truthy, else the currency, upper-cased unless it is a test network ticker.
  \<^verbatim>\<open>currency?.toUpperCase()\<close> is \<^verbatim>\<open>undefined\<close> for an \<^verbatim>\<open>undefined\<close> currency.\<close>

definition useCurrencyDisplay_suffix :: "'n collaborators \<Rightarrow> options \<Rightarrow> string option" where
  "useCurrencyDisplay_suffix K opts =
     (if \<not> hideLabel opts then
        let currencyTickerSymbol =
              (case currency opts of
                 None \<Rightarrow> None
               | Some c \<Rightarrow>
                   if c \<in> set (TEST_NETWORK_TICKER_MAP_values K) then Some c
                   else Some (toUpperCase c))
        in or_string (suffix opts) currencyTickerSymbol
      else None)"

definition useCurrencyDisplay ::
  "'n collaborators \<Rightarrow> store \<Rightarrow> string \<Rightarrow> options \<Rightarrow> js_error + (string \<times> parts)" where
  "useCurrencyDisplay K st inputValue opts =
     bind_result (useCurrencyDisplay_value K st inputValue opts) (\<lambda>v.
       let sfx = useCurrencyDisplay_suffix K opts in
       Inr (the (or_string (prefix opts) (Some [])) @ template_string v @
              (if truthy_string sfx then '' '' @ the sfx else []),
            \<lparr> prefix_part = prefix opts, value_part = v, suffix_part = sfx \<rparr>))"

subsection \<open>An instance of the imported functions\<close>

text \<open>
  The theorems below hold for every choice of the imported functions. To evaluate the
  hook on concrete amounts, the imports are instantiated with exact decimal arithmetic:
  a \<open>numeric\<close> is the number \<open>num_coeff / 10 ^ num_scale\<close> of units of \<open>num_denom\<close>,
  to be printed in base \<open>num_base\<close>.
\<close>

record numeric =
  num_coeff :: nat
  num_scale :: nat
  num_base :: nat
  num_denom :: string

text \<open>Modelled from the spec: the constants of \<^verbatim>\<open>EtherDenomination\<close>, absent from the
  sources. The smallest unit, the unit of \<open>10 ^ 9\<close> and the major unit of \<open>10 ^ 18\<close>
  smallest units (\<^verbatim>\<open>0xde0b6b3a7640000\<close> is one major unit).\<close>

definition denominationExponent :: "string \<Rightarrow> nat option" where
  "denominationExponent d =
     (if d = ''WEI'' then Some 0 else if d = ''GWEI'' then Some 9
      else if d = ''ETH'' then Some 18 else None)"

definition stripHexPrefix :: "string \<Rightarrow> string" where
  "stripHexPrefix s = (if take 2 s = ''0x'' then drop 2 s else s)"

text \<open>Modelled from the spec: the constructor of \<^verbatim>\<open>Numeric\<close>, absent from the sources. The
  input is read as an integer of the given base; what happens to an input that is not
  one is left open by the spec, and is an exception here.\<close>

definition spec_Numeric_new :: "string \<Rightarrow> nat \<Rightarrow> string \<Rightarrow> js_error + numeric" where
  "spec_Numeric_new v b d =
     (case parseDigits b (stripHexPrefix v) of
        None \<Rightarrow> Inl (JsError ''not a number'')
      | Some n \<Rightarrow> Inr \<lparr> num_coeff = n, num_scale = 0, num_base = b, num_denom = d \<rparr>)"

text \<open>Modelled from the spec: \<^verbatim>\<open>Numeric.toDenomination\<close>, absent from the sources: the same
  amount counted in another unit.\<close>

definition spec_Numeric_toDenomination :: "numeric \<Rightarrow> string \<Rightarrow> js_error + numeric" where
  "spec_Numeric_toDenomination x d =
     (case (denominationExponent (num_denom x), denominationExponent d) of
        (Some a, Some b) \<Rightarrow>
          Inr (if a \<le> b then x\<lparr> num_scale := num_scale x + (b - a), num_denom := d \<rparr>
               else x\<lparr> num_coeff := num_coeff x * 10 ^ (a - b), num_denom := d \<rparr>)
      | _ \<Rightarrow> Inl (JsError ''unknown denomination''))"

text \<open>Modelled from the spec: \<^verbatim>\<open>Numeric.round\<close>, absent from the sources: rounding to \<open>n\<close>
  decimal places, to the nearest. The spec does not say where a tie goes; here it goes
  down.\<close>

definition spec_Numeric_round :: "numeric \<Rightarrow> int \<Rightarrow> js_error + numeric" where
  "spec_Numeric_round x n =
     (if n < 0 then Inl (JsError ''negative number of decimals'')
      else if num_scale x \<le> nat n then Inr x
      else
        let m = 10 ^ (num_scale x - nat n);
            q = num_coeff x div m;
            r = num_coeff x mod m
        in Inr (x\<lparr> num_coeff := (if m < 2 * r then q + 1 else q), num_scale := nat n \<rparr>))"

text \<open>Modelled from the spec: \<^verbatim>\<open>Numeric.toBase\<close>, absent from the sources.\<close>

definition spec_Numeric_toBase :: "numeric \<Rightarrow> nat \<Rightarrow> js_error + numeric" where
  "spec_Numeric_toBase x b = Inr (x\<lparr> num_base := b \<rparr>)"

text \<open>The decimal digits of a natural number.\<close>

fun showDigits :: "nat \<Rightarrow> string" where
  "showDigits n =
     (if n < 10 then [char_of (48 + n)] else showDigits (n div 10) @ [char_of (48 + n mod 10)])"

text \<open>Trailing zeros of the fraction are not printed.\<close>

fun stripZeros :: "nat \<Rightarrow> nat \<Rightarrow> nat \<times> nat" where
  "stripZeros c 0 = (c, 0)"
| "stripZeros c (Suc k) = (if c mod 10 = 0 then stripZeros (c div 10) k else (c, Suc k))"

definition showDecimal :: "nat \<Rightarrow> nat \<Rightarrow> string" where
  "showDecimal c k =
     (case stripZeros c k of
        (c', k') \<Rightarrow>
          if k' = 0 then showDigits c'
          else
            let fd = showDigits (c' mod 10 ^ k') in
            showDigits (c' div 10 ^ k') @ ''.'' @ replicate (k' - length fd) (CHR ''0'') @ fd)"

text \<open>Modelled from the spec: \<^verbatim>\<open>Numeric.toString\<close>, absent from the sources: the number in
  base 10. Other bases are not needed by the hook and are an exception here.\<close>

definition spec_Numeric_toString :: "numeric \<Rightarrow> js_error + string" where
  "spec_Numeric_toString x =
     (if num_base x = 10 then Inr (showDecimal (num_coeff x) (num_scale x))
      else Inl (JsError ''base not rendered''))"

text \<open>Modelled from the spec: \<^verbatim>\<open>getValueFromWeiHex\<close>, absent from the sources: the amount
  in major units times the conversion rate, rounded to the number of decimals.\<close>

definition spec_getValueFromWeiHex :: "wei_hex_args \<Rightarrow> js_error + string" where
  "spec_getValueFromWeiHex a =
     (case (parseDigits 16 (stripHexPrefix (arg_value a)), arg_conversionRate a) of
        (Some n, Some rate) \<Rightarrow>
          if rate < 0 \<or> arg_numberOfDecimals a < 0 then Inl (JsError ''out of range'')
          else
            let d = nat (arg_numberOfDecimals a);
                num = n * nat (fst (quotient_of rate)) * 10 ^ d;
                den = nat (snd (quotient_of rate)) * 10 ^ 18;
                c = num div den;
                r = num mod den
            in Inr (showDecimal (if den < 2 * r then c + 1 else c) d)
      | _ \<Rightarrow> Inl (JsError ''not a number''))"

text \<open>Modelled from the spec: \<^verbatim>\<open>formatCurrency\<close>, absent from the sources: the currency
  symbol of the one fiat currency of the examples is put in front; grouping separators
  are left to the formatting library.\<close>

definition spec_formatCurrency :: "string \<Rightarrow> string option \<Rightarrow> js_error + string" where
  "spec_formatCurrency v c = Inr ((if c = Some ''usd'' then ''$'' else []) @ v)"

text \<open>Modelled from the spec: the values of \<^verbatim>\<open>TEST_NETWORK_TICKER_MAP\<close>, absent from the
  sources: native ticker symbols of test networks, in mixed case.\<close>

definition spec_TEST_NETWORK_TICKER_MAP_values :: "string list" where
  "spec_TEST_NETWORK_TICKER_MAP_values = [''GoerliETH'', ''SepoliaETH'', ''LineaETH'']"

definition spec_collaborators :: "numeric collaborators" where
  "spec_collaborators =
     \<lparr> Numeric_new = spec_Numeric_new,
       Numeric_toDenomination = spec_Numeric_toDenomination,
       Numeric_round = spec_Numeric_round,
       Numeric_toBase = spec_Numeric_toBase,
       Numeric_toString = spec_Numeric_toString,
       getValueFromWeiHex = spec_getValueFromWeiHex,
       formatCurrency = spec_formatCurrency,
       TEST_NETWORK_TICKER_MAP_values = spec_TEST_NETWORK_TICKER_MAP_values,
       EtherDenomination_WEI = ''WEI'',
       EtherDenomination_ETH = ''ETH'' \<rparr>"

text \<open>A store and an options object for the examples: the user's currency is \<^verbatim>\<open>usd\<close>, the
  native currency \<^verbatim>\<open>ETH\<close>, one \<^verbatim>\<open>ETH\<close> is 2000 \<^verbatim>\<open>usd\<close>; the options ask for the native
  currency and nothing else.\<close>

definition example_store :: store where
  "example_store =
     \<lparr> currentCurrency = Some ''usd'', nativeCurrency = Some ''ETH'', conversionRate = Some 2000 \<rparr>"

definition example_options :: options where
  "example_options =
     \<lparr> displayValue = None, prefix = None, numberOfDecimals = None, denomination = None,
       currency = Some ''ETH'', hideLabel = False, suffix = None \<rparr>"

section \<open>Properties\<close>

subsection \<open>Auxiliary facts\<close>

lemma bind_result_Inr [simp]: "bind_result (Inr x) f = f x"
  by (simp add: bind_result_def)

lemma bind_result_Inl [simp]: "bind_result (Inl e) f = Inl e"
  by (simp add: bind_result_def)

lemma bind_result_eq_Inr:
  "bind_result r f = Inr y \<longleftrightarrow> (\<exists>x. r = Inr x \<and> f x = Inr y)"
  by (cases r) simp_all

lemma useCurrencyDisplay_Inr:
  "useCurrencyDisplay K st v opts = Inr (s, p) \<longleftrightarrow>
     (\<exists>val. useCurrencyDisplay_value K st v opts = Inr val \<and>
        s = the (or_string (prefix opts) (Some [])) @ template_string val @
            (if truthy_string (useCurrencyDisplay_suffix K opts)
             then '' '' @ the (useCurrencyDisplay_suffix K opts) else []) \<and>
        p = \<lparr> prefix_part = prefix opts, value_part = val,
              suffix_part = useCurrencyDisplay_suffix K opts \<rparr>)"
  by (auto simp: useCurrencyDisplay_def bind_result_eq_Inr Let_def)

lemma value_displayValue:
  "truthy_string (displayValue opts) \<Longrightarrow>
   useCurrencyDisplay_value K st v opts = Inr (displayValue opts)"
  by (simp add: useCurrencyDisplay_value_def)

lemma value_native:
  assumes "\<not> truthy_string (displayValue opts)"
    and "currency opts = nativeCurrency st \<or>
         (currency opts \<noteq> currentCurrency st \<and> \<not> truthy_string (nativeCurrency st))"
  shows "useCurrencyDisplay_value K st v opts =
         bind_result
           (nativeDisplayValue K v
              (the (or_string (denomination opts) (Some (EtherDenomination_ETH K))))
              (or_int (numberOfDecimals opts) DEFAULT_PRECISION_DECIMALS))
           (\<lambda>s. Inr (Some s))"
  using assms by (simp add: useCurrencyDisplay_value_def Let_def)

lemma value_fiat:
  assumes "\<not> truthy_string (displayValue opts)"
    and "currency opts \<noteq> nativeCurrency st"
    and "currency opts = currentCurrency st"
    and "truthy_rat (conversionRate st)"
  shows "useCurrencyDisplay_value K st v opts =
         bind_result
           (fiatDisplayValue K
              \<lparr> arg_value = v,
                arg_fromCurrency = nativeCurrency st,
                arg_toCurrency = currency opts,
                arg_conversionRate = conversionRate st,
                arg_numberOfDecimals = or_int (numberOfDecimals opts) 2,
                arg_toDenomination = denomination opts \<rparr>
              (currency opts))
           (\<lambda>s. Inr (Some s))"
  using assms by (simp add: useCurrencyDisplay_value_def Let_def)

lemma value_null:
  assumes "\<not> truthy_string (displayValue opts)"
    and "currency opts \<noteq> nativeCurrency st"
    and "\<not> (currency opts \<noteq> currentCurrency st \<and> \<not> truthy_string (nativeCurrency st))"
    and "currency opts \<noteq> currentCurrency st \<or> \<not> truthy_rat (conversionRate st)"
  shows "useCurrencyDisplay_value K st v opts = Inr None"
  using assms by (auto simp: useCurrencyDisplay_value_def Let_def)

text \<open>The hook has no \<^verbatim>\<open>throw\<close> of its own: when the imported functions return, it returns.\<close>

lemma ethDisplayValue_returns:
  assumes "\<And>x b d. \<exists>n. Numeric_new K x b d = Inr n"
    and "\<And>x d. \<exists>n. Numeric_toDenomination K x d = Inr n"
    and "\<And>x k. \<exists>n. Numeric_round K x k = Inr n"
    and "\<And>x b. \<exists>n. Numeric_toBase K x b = Inr n"
    and "\<And>x. \<exists>s. Numeric_toString K x = Inr s"
  shows "\<exists>e. ethDisplayValue K v d k = Inr e"
proof -
  obtain x1 where 1: "Numeric_new K v 16 (EtherDenomination_WEI K) = Inr x1"
    using assms(1) by blast
  obtain x2 where 2: "Numeric_toDenomination K x1 d = Inr x2"
    using assms(2) by blast
  obtain x3 where 3: "Numeric_round K x2 k = Inr x3"
    using assms(3) by blast
  obtain x4 where 4: "Numeric_toBase K x3 10 = Inr x4"
    using assms(4) by blast
  obtain s where 5: "Numeric_toString K x4 = Inr s"
    using assms(5) by blast
  show ?thesis
    by (simp add: ethDisplayValue_def 1 2 3 4 5)
qed

lemma useCurrencyDisplay_returns:
  assumes "\<And>x b d. \<exists>n. Numeric_new K x b d = Inr n"
    and "\<And>x d. \<exists>n. Numeric_toDenomination K x d = Inr n"
    and "\<And>x k. \<exists>n. Numeric_round K x k = Inr n"
    and "\<And>x b. \<exists>n. Numeric_toBase K x b = Inr n"
    and "\<And>x. \<exists>s. Numeric_toString K x = Inr s"
    and "\<And>a. \<exists>s. getValueFromWeiHex K a = Inr s"
    and "\<And>x c. \<exists>s. formatCurrency K x c = Inr s"
  shows "\<exists>s p. useCurrencyDisplay K st v opts = Inr (s, p)"
proof -
  have native: "\<exists>e. nativeDisplayValue K v d k = Inr e" for d k
    using ethDisplayValue_returns [OF assms(1-5), of v d k]
    by (auto simp: nativeDisplayValue_def)
  have fiat: "\<exists>e. fiatDisplayValue K a c = Inr e" for a c
  proof -
    obtain x where "getValueFromWeiHex K a = Inr x"
      using assms(6) by blast
    then show ?thesis
      using assms(7) [of x c] by (simp add: fiatDisplayValue_def)
  qed
  have "\<exists>val. useCurrencyDisplay_value K st v opts = Inr val"
  proof (cases "truthy_string (displayValue opts)")
    case True
    then show ?thesis by (simp add: value_displayValue)
  next
    case no_display: False
    show ?thesis
    proof (cases "currency opts = nativeCurrency st \<or>
        (currency opts \<noteq> currentCurrency st \<and> \<not> truthy_string (nativeCurrency st))")
      case True
      obtain e where "nativeDisplayValue K v
          (the (or_string (denomination opts) (Some (EtherDenomination_ETH K))))
          (or_int (numberOfDecimals opts) DEFAULT_PRECISION_DECIMALS) = Inr e"
        using native by blast
      then show ?thesis
        by (simp add: value_native [OF no_display True])
    next
      case not_native: False
      show ?thesis
      proof (cases "currency opts = currentCurrency st \<and> truthy_rat (conversionRate st)")
        case True
        obtain e where "fiatDisplayValue K
            \<lparr> arg_value = v,
              arg_fromCurrency = nativeCurrency st,
              arg_toCurrency = currency opts,
              arg_conversionRate = conversionRate st,
              arg_numberOfDecimals = or_int (numberOfDecimals opts) 2,
              arg_toDenomination = denomination opts \<rparr>
            (currency opts) = Inr e"
          using fiat by blast
        then show ?thesis
          using value_fiat [OF no_display, of st K v] not_native True by simp
      next
        case False
        then show ?thesis
          using value_null [OF no_display, of st K v] not_native by auto
      qed
    qed
  qed
  then show ?thesis
    by (auto simp: useCurrencyDisplay_Inr)
qed

text \<open>The examples of the spec, evaluated: one major unit, the smallest unit, zero, an
  amount with more than six decimals, a fiat amount and an unrelated currency.\<close>

lemma example_one_unit:
  "useCurrencyDisplay spec_collaborators example_store ''0xde0b6b3a7640000'' example_options =
   Inr (''1 ETH'', \<lparr>prefix_part = None, value_part = Some ''1'', suffix_part = Some ''ETH''\<rparr>)"
  by code_simp

lemma example_smallest_unit:
  "useCurrencyDisplay spec_collaborators example_store ''0x1'' example_options =
   Inr (''<0.000001 ETH'',
        \<lparr>prefix_part = None, value_part = Some ''<0.000001'', suffix_part = Some ''ETH''\<rparr>)"
  by code_simp

lemma example_fiat:
  "useCurrencyDisplay spec_collaborators example_store ''0xde0b6b3a7640000''
     (example_options\<lparr>currency := Some ''usd''\<rparr>) =
   Inr (''$2000 USD'',
        \<lparr>prefix_part = None, value_part = Some ''$2000'', suffix_part = Some ''USD''\<rparr>)"
  by code_simp

subsection \<open>The value\<close>

text \<open>
  C2, as the claim states it, fails: a \<^verbatim>\<open>displayValue\<close> that is supplied as the empty
  string is falsy, the test \<^verbatim>\<open>if (displayValue)\<close> does not take it, and the value is the
  converted amount. Here \<^verbatim>\<open>displayValue\<close> is \<^verbatim>\<open>''\<close> and the value is \<^verbatim>\<open>'1'\<close>.
\<close>

theorem displayValue_empty_not_used:
  "useCurrencyDisplay spec_collaborators example_store ''0xde0b6b3a7640000''
     (example_options\<lparr>displayValue := Some []\<rparr>) =
   Inr (''1 ETH'', \<lparr>prefix_part = None, value_part = Some ''1'', suffix_part = Some ''ETH''\<rparr>)"
  by code_simp

text \<open>
  C2, amended: when \<^verbatim>\<open>displayValue\<close> is supplied and is not the empty string, the hook
  returns, and the value of its parts is \<^verbatim>\<open>displayValue\<close>, whatever the amount, the other
  options, the store and the imported functions are.
\<close>

theorem displayValue_verbatim:
  assumes "displayValue opts = Some d" and "d \<noteq> []"
  shows "\<exists>s p. useCurrencyDisplay K st v opts = Inr (s, p) \<and> value_part p = Some d"
proof -
  from assms have "truthy_string (displayValue opts)"
    by (simp add: truthy_string_def)
  then have "useCurrencyDisplay_value K st v opts = Inr (Some d)"
    using assms(1) by (simp add: value_displayValue)
  then show ?thesis
    by (simp add: useCurrencyDisplay_Inr)
qed

theorem displayValue_verbatim_witness:
  "\<exists>s p. useCurrencyDisplay spec_collaborators example_store ''0x1''
            (example_options\<lparr>displayValue := Some ''12.5''\<rparr>) = Inr (s, p) \<and>
         value_part p = Some ''12.5''"
  using displayValue_verbatim [of "example_options\<lparr>displayValue := Some ''12.5''\<rparr>" "''12.5''"
      spec_collaborators example_store "''0x1''"]
  by simp

text \<open>When the hook throws: the exception is that of the value, which is that of the
  imported functions called on the path taken.\<close>

lemma bind_result_eq_Inl:
  "bind_result r f = Inl e \<longleftrightarrow> r = Inl e \<or> (\<exists>x. r = Inr x \<and> f x = Inl e)"
  by (cases r) simp_all

lemma useCurrencyDisplay_Inl:
  "useCurrencyDisplay K st v opts = Inl e \<longleftrightarrow> useCurrencyDisplay_value K st v opts = Inl e"
  by (simp add: useCurrencyDisplay_def bind_result_eq_Inl Let_def)

lemma nativeDisplayValue_Inl:
  "nativeDisplayValue K v d k = Inl e \<longleftrightarrow> ethDisplayValue K v d k = Inl e"
  by (simp add: nativeDisplayValue_def bind_result_eq_Inl)

text \<open>
  C4, as the claim states it, fails in its second part: the hook has no \<^verbatim>\<open>try\<close>, and an
  exception of an imported function leaves the hook as it is. With the instance of the
  imports, an input that is not a hexadecimal number throws on the native path; and
  whatever the imports are, when \<^verbatim>\<open>round\<close> throws, the hook throws the same.
\<close>

theorem import_exception_propagates:
  "useCurrencyDisplay spec_collaborators example_store ''0xzz'' example_options =
     Inl (JsError ''not a number'') \<and>
   useCurrencyDisplay
     (spec_collaborators\<lparr>Numeric_round := (\<lambda>x k. Inl (JsError ''thrown''))\<rparr>)
     example_store ''0xde0b6b3a7640000'' example_options =
     Inl (JsError ''thrown'')"
proof -
  have "useCurrencyDisplay spec_collaborators example_store ''0xzz'' example_options =
          Inl (JsError ''not a number'')"
    by code_simp
  moreover have "useCurrencyDisplay
          (spec_collaborators\<lparr>Numeric_round := (\<lambda>x k. Inl (JsError ''thrown''))\<rparr>)
          example_store ''0xde0b6b3a7640000'' example_options =
          Inl (JsError ''thrown'')"
    by code_simp
  ultimately show ?thesis
    by simp
qed

text \<open>
  C4, amended: with no truthy \<^verbatim>\<open>displayValue\<close>, a currency that is not the native currency,
  that is the user's currency or comes with a native currency, and that is not the user's
  currency or comes without a conversion rate, the hook returns, whatever the imported
  functions do, and the value of its parts is \<^verbatim>\<open>null\<close>. On every path the hook throws no
  exception of its own: it throws \<open>e\<close> exactly when no \<^verbatim>\<open>displayValue\<close> is used and either
  the native path is taken and the \<^verbatim>\<open>Numeric\<close> chain throws \<open>e\<close>, or the fiat path is taken
  and \<^verbatim>\<open>formatCurrency(getValueFromWeiHex(...))\<close> throws \<open>e\<close>.
\<close>

theorem exceptions_only_from_imports:
  "(\<not> truthy_string (displayValue opts) \<and>
    currency opts \<noteq> nativeCurrency st \<and>
    \<not> (currency opts \<noteq> currentCurrency st \<and> \<not> truthy_string (nativeCurrency st)) \<and>
    (currency opts \<noteq> currentCurrency st \<or> \<not> truthy_rat (conversionRate st)) \<longrightarrow>
      (\<exists>s p. useCurrencyDisplay K st v opts = Inr (s, p) \<and> value_part p = None)) \<and>
   (useCurrencyDisplay K st v opts = Inl e \<longleftrightarrow>
      \<not> truthy_string (displayValue opts) \<and>
      (if currency opts = nativeCurrency st \<or>
          (currency opts \<noteq> currentCurrency st \<and> \<not> truthy_string (nativeCurrency st))
       then ethDisplayValue K v
              (the (or_string (denomination opts) (Some (EtherDenomination_ETH K))))
              (or_int (numberOfDecimals opts) DEFAULT_PRECISION_DECIMALS) = Inl e
       else currency opts = currentCurrency st \<and> truthy_rat (conversionRate st) \<and>
            fiatDisplayValue K
              \<lparr> arg_value = v,
                arg_fromCurrency = nativeCurrency st,
                arg_toCurrency = currency opts,
                arg_conversionRate = conversionRate st,
                arg_numberOfDecimals = or_int (numberOfDecimals opts) 2,
                arg_toDenomination = denomination opts \<rparr>
              (currency opts) = Inl e))"
proof -
  have null: "\<exists>s p. useCurrencyDisplay K st v opts = Inr (s, p) \<and> value_part p = None"
    if "\<not> truthy_string (displayValue opts)"
      and "currency opts \<noteq> nativeCurrency st"
      and "\<not> (currency opts \<noteq> currentCurrency st \<and> \<not> truthy_string (nativeCurrency st))"
      and "currency opts \<noteq> currentCurrency st \<or> \<not> truthy_rat (conversionRate st)"
  proof -
    have "useCurrencyDisplay_value K st v opts = Inr None"
      using that by (rule value_null)
    then show ?thesis
      by (simp add: useCurrencyDisplay_Inr)
  qed
  have throws: "useCurrencyDisplay_value K st v opts = Inl e \<longleftrightarrow>
      \<not> truthy_string (displayValue opts) \<and>
      (if currency opts = nativeCurrency st \<or>
          (currency opts \<noteq> currentCurrency st \<and> \<not> truthy_string (nativeCurrency st))
       then ethDisplayValue K v
              (the (or_string (denomination opts) (Some (EtherDenomination_ETH K))))
              (or_int (numberOfDecimals opts) DEFAULT_PRECISION_DECIMALS) = Inl e
       else currency opts = currentCurrency st \<and> truthy_rat (conversionRate st) \<and>
            fiatDisplayValue K
              \<lparr> arg_value = v,
                arg_fromCurrency = nativeCurrency st,
                arg_toCurrency = currency opts,
                arg_conversionRate = conversionRate st,
                arg_numberOfDecimals = or_int (numberOfDecimals opts) 2,
                arg_toDenomination = denomination opts \<rparr>
              (currency opts) = Inl e)"
    by (auto simp: useCurrencyDisplay_value_def Let_def bind_result_eq_Inl nativeDisplayValue_Inl)
  show ?thesis
    using null throws by (simp only: useCurrencyDisplay_Inl) blast
qed

theorem exceptions_only_from_imports_witness:
  "(\<exists>s p. useCurrencyDisplay spec_collaborators example_store ''0xde0b6b3a7640000''
             (example_options\<lparr>currency := Some ''eur''\<rparr>) = Inr (s, p) \<and>
          value_part p = None) \<and>
   useCurrencyDisplay spec_collaborators example_store ''0xde0b6b3a7640000'' example_options \<noteq>
     Inl (JsError ''not a number'') \<and>
   useCurrencyDisplay spec_collaborators example_store ''0xzz'' example_options =
     Inl (JsError ''not a number'')"
proof -
  let ?eur = "example_options\<lparr>currency := Some ''eur''\<rparr>"
  let ?e = "JsError ''not a number''"
  have path: "\<not> truthy_string (displayValue ?eur) \<and>
      currency ?eur \<noteq> nativeCurrency example_store \<and>
      \<not> (currency ?eur \<noteq> currentCurrency example_store \<and>
         \<not> truthy_string (nativeCurrency example_store)) \<and>
      (currency ?eur \<noteq> currentCurrency example_store \<or>
       \<not> truthy_rat (conversionRate example_store))"
    by (simp add: example_options_def example_store_def truthy_string_def)
  have first: "\<exists>s p. useCurrencyDisplay spec_collaborators example_store ''0xde0b6b3a7640000''
                        ?eur = Inr (s, p) \<and> value_part p = None"
    using exceptions_only_from_imports [where opts = ?eur and st = example_store
        and K = spec_collaborators and v = "''0xde0b6b3a7640000''" and e = ?e] path
    by blast
  have no_display: "\<not> truthy_string (displayValue example_options)"
    by (simp add: example_options_def truthy_string_def)
  have native: "currency example_options = nativeCurrency example_store"
    by (simp add: example_options_def example_store_def)
  have good: "ethDisplayValue spec_collaborators ''0xde0b6b3a7640000''
                (the (or_string (denomination example_options)
                   (Some (EtherDenomination_ETH spec_collaborators))))
                (or_int (numberOfDecimals example_options) DEFAULT_PRECISION_DECIMALS) = Inr ''1''"
    by code_simp
  have bad: "ethDisplayValue spec_collaborators ''0xzz''
               (the (or_string (denomination example_options)
                  (Some (EtherDenomination_ETH spec_collaborators))))
               (or_int (numberOfDecimals example_options) DEFAULT_PRECISION_DECIMALS) = Inl ?e"
    by code_simp
  have second: "useCurrencyDisplay spec_collaborators example_store ''0xde0b6b3a7640000''
                  example_options \<noteq> Inl ?e"
    using exceptions_only_from_imports [where opts = example_options and st = example_store
        and K = spec_collaborators and v = "''0xde0b6b3a7640000''" and e = ?e]
      no_display native good
    by simp
  have third: "useCurrencyDisplay spec_collaborators example_store ''0xzz'' example_options =
                 Inl ?e"
    using exceptions_only_from_imports [where opts = example_options and st = example_store
        and K = spec_collaborators and v = "''0xzz''" and e = ?e]
      no_display native bad
    by simp
  show ?thesis
    using first second third by blast
qed

subsection \<open>The suffix\<close>

text \<open>
  C5: when \<^verbatim>\<open>hideLabel\<close> is set, the suffix is \<^verbatim>\<open>undefined\<close>, whatever the \<^verbatim>\<open>suffix\<close> option
  and the currency are, and every result of the hook has the suffix \<^verbatim>\<open>undefined\<close> in its
  parts and the string made of the prefix and the value only.
\<close>

theorem hideLabel_no_suffix:
  assumes "hideLabel opts"
  shows "useCurrencyDisplay_suffix K opts = None \<and>
         (\<forall>s p. useCurrencyDisplay K st v opts = Inr (s, p) \<longrightarrow>
            suffix_part p = None \<and>
            s = (case prefix opts of None \<Rightarrow> [] | Some x \<Rightarrow> x) @ template_string (value_part p))"
proof -
  have sfx: "useCurrencyDisplay_suffix K opts = None"
    using assms by (simp add: useCurrencyDisplay_suffix_def)
  have pre: "the (or_string (prefix opts) (Some [])) = (case prefix opts of None \<Rightarrow> [] | Some x \<Rightarrow> x)"
    by (simp add: or_string_def truthy_string_def split: option.splits)
  show ?thesis
    using sfx pre by (auto simp: useCurrencyDisplay_Inr truthy_string_def)
qed

theorem hideLabel_no_suffix_witness:
  "useCurrencyDisplay_suffix spec_collaborators
     (example_options\<lparr>hideLabel := True, suffix := Some ''ether''\<rparr>) = None \<and>
   useCurrencyDisplay spec_collaborators example_store ''0xde0b6b3a7640000''
     (example_options\<lparr>hideLabel := True, suffix := Some ''ether''\<rparr>) =
   Inr (''1'', \<lparr>prefix_part = None, value_part = Some ''1'', suffix_part = None\<rparr>)"
proof -
  let ?o = "example_options\<lparr>hideLabel := True, suffix := Some ''ether''\<rparr>"
  have h: "hideLabel ?o" by simp
  have r: "useCurrencyDisplay spec_collaborators example_store ''0xde0b6b3a7640000'' ?o =
           Inr (''1'', \<lparr>prefix_part = None, value_part = Some ''1'', suffix_part = None\<rparr>)"
    by code_simp
  from hideLabel_no_suffix [OF h, of spec_collaborators example_store "''0xde0b6b3a7640000''"]
  have "useCurrencyDisplay_suffix spec_collaborators ?o = None"
    by blast
  with r show ?thesis
    by simp
qed

text \<open>
  C6: when \<^verbatim>\<open>hideLabel\<close> is not set and no truthy \<^verbatim>\<open>suffix\<close> option is given, the suffix is
  the currency unchanged when it is one of the values of the test network ticker table,
  and the currency in upper case otherwise (\<^verbatim>\<open>undefined\<close> when there is no currency);
  the parts of every result carry that suffix.
\<close>

theorem suffix_ticker_casing:
  assumes "\<not> hideLabel opts" and "\<not> truthy_string (suffix opts)"
  shows "useCurrencyDisplay_suffix K opts =
           map_option (\<lambda>c. if c \<in> set (TEST_NETWORK_TICKER_MAP_values K) then c
                           else toUpperCase c) (currency opts) \<and>
         (\<forall>s p. useCurrencyDisplay K st v opts = Inr (s, p) \<longrightarrow>
            suffix_part p =
              map_option (\<lambda>c. if c \<in> set (TEST_NETWORK_TICKER_MAP_values K) then c
                              else toUpperCase c) (currency opts))"
proof -
  have "useCurrencyDisplay_suffix K opts =
          map_option (\<lambda>c. if c \<in> set (TEST_NETWORK_TICKER_MAP_values K) then c
                          else toUpperCase c) (currency opts)"
    using assms by (simp add: useCurrencyDisplay_suffix_def or_string_def split: option.splits)
  then show ?thesis
    by (auto simp: useCurrencyDisplay_Inr)
qed

theorem suffix_ticker_casing_witness:
  "useCurrencyDisplay_suffix spec_collaborators (example_options\<lparr>currency := Some ''SepoliaETH''\<rparr>) =
     Some ''SepoliaETH'' \<and>
   useCurrencyDisplay_suffix spec_collaborators (example_options\<lparr>currency := Some ''usd''\<rparr>) =
     Some ''USD'' \<and>
   useCurrencyDisplay spec_collaborators (example_store\<lparr>nativeCurrency := Some ''SepoliaETH''\<rparr>)
     ''0xde0b6b3a7640000'' (example_options\<lparr>currency := Some ''SepoliaETH''\<rparr>) =
   Inr (''1 SepoliaETH'',
        \<lparr>prefix_part = None, value_part = Some ''1'', suffix_part = Some ''SepoliaETH''\<rparr>)"
proof -
  let ?a = "example_options\<lparr>currency := Some ''SepoliaETH''\<rparr>"
  let ?b = "example_options\<lparr>currency := Some ''usd''\<rparr>"
  have ha: "\<not> hideLabel ?a" "\<not> truthy_string (suffix ?a)"
    by (simp_all add: example_options_def truthy_string_def)
  have hb: "\<not> hideLabel ?b" "\<not> truthy_string (suffix ?b)"
    by (simp_all add: example_options_def truthy_string_def)
  have ta: "''SepoliaETH'' \<in> set (TEST_NETWORK_TICKER_MAP_values spec_collaborators)"
    by (simp add: spec_collaborators_def spec_TEST_NETWORK_TICKER_MAP_values_def)
  have tb: "''usd'' \<notin> set (TEST_NETWORK_TICKER_MAP_values spec_collaborators)"
    by (simp add: spec_collaborators_def spec_TEST_NETWORK_TICKER_MAP_values_def)
  have up: "toUpperCase ''usd'' = ''USD''"
    by code_simp
  have r: "useCurrencyDisplay spec_collaborators
             (example_store\<lparr>nativeCurrency := Some ''SepoliaETH''\<rparr>)
             ''0xde0b6b3a7640000'' ?a =
           Inr (''1 SepoliaETH'',
                \<lparr>prefix_part = None, value_part = Some ''1'', suffix_part = Some ''SepoliaETH''\<rparr>)"
    by code_simp
  show ?thesis
    using suffix_ticker_casing [OF ha, of spec_collaborators example_store "''0x1''"]
      suffix_ticker_casing [OF hb, of spec_collaborators example_store "''0x1''"] ta tb up r
    by simp
qed

subsection \<open>The conversion rate and the assembly\<close>

text \<open>
  C8: when the currency is the native currency, the result (string and parts) does not
  depend on the conversion rate: two runs that differ in the conversion rate only give the
  same result. The fiat conversion is not taken either: replacing \<^verbatim>\<open>getValueFromWeiHex\<close>
  and \<^verbatim>\<open>formatCurrency\<close> by any other functions leaves the result as it is.
\<close>

theorem native_currency_ignores_rate:
  assumes "currency opts = nativeCurrency st"
  shows "useCurrencyDisplay K (st\<lparr>conversionRate := r1\<rparr>) v opts =
         useCurrencyDisplay K (st\<lparr>conversionRate := r2\<rparr>) v opts \<and>
         useCurrencyDisplay (K\<lparr>getValueFromWeiHex := g, formatCurrency := f\<rparr>) st v opts =
         useCurrencyDisplay K st v opts"
proof -
  have v1: "useCurrencyDisplay_value K (st\<lparr>conversionRate := r1\<rparr>) v opts =
            useCurrencyDisplay_value K (st\<lparr>conversionRate := r2\<rparr>) v opts"
    using assms by (simp add: useCurrencyDisplay_value_def Let_def)
  have v2: "useCurrencyDisplay_value (K\<lparr>getValueFromWeiHex := g, formatCurrency := f\<rparr>) st v opts =
            useCurrencyDisplay_value K st v opts"
    using assms
    by (simp add: useCurrencyDisplay_value_def nativeDisplayValue_def ethDisplayValue_def Let_def)
  have s2: "useCurrencyDisplay_suffix (K\<lparr>getValueFromWeiHex := g, formatCurrency := f\<rparr>) opts =
            useCurrencyDisplay_suffix K opts"
    by (simp add: useCurrencyDisplay_suffix_def cong: option.case_cong)
  show ?thesis
    by (simp add: useCurrencyDisplay_def v1 v2 s2)
qed

theorem native_currency_ignores_rate_witness:
  "useCurrencyDisplay spec_collaborators (example_store\<lparr>conversionRate := Some 2000\<rparr>)
     ''0xde0b6b3a7640000'' example_options =
   useCurrencyDisplay spec_collaborators (example_store\<lparr>conversionRate := None\<rparr>)
     ''0xde0b6b3a7640000'' example_options \<and>
   useCurrencyDisplay
     (spec_collaborators\<lparr>getValueFromWeiHex := (\<lambda>a. Inl (JsError ''called'')),
        formatCurrency := (\<lambda>x c. Inl (JsError ''called''))\<rparr>)
     example_store ''0xde0b6b3a7640000'' example_options =
   Inr (''1 ETH'', \<lparr>prefix_part = None, value_part = Some ''1'', suffix_part = Some ''ETH''\<rparr>)"
proof -
  have h: "currency example_options = nativeCurrency example_store"
    by (simp add: example_options_def example_store_def)
  show ?thesis
    using native_currency_ignores_rate [OF h, where K = spec_collaborators and ?r1.0 = "Some 2000"
        and v = "''0xde0b6b3a7640000''" and ?r2.0 = None
        and g = "\<lambda>a. Inl (JsError ''called'')"
        and f = "\<lambda>x c. Inl (JsError ''called'')"]
      example_one_unit
    by simp
qed

text \<open>
  C9: every result \<open>(s, p)\<close> of the hook has the string \<open>s\<close> made of the prefix (the empty
  string when the prefix is missing), the value (a \<^verbatim>\<open>null\<close> value reads \<^verbatim>\<open>null\<close>) and, when
  there is a suffix that is not the empty string, a space and the suffix; the parts \<open>p\<close>
  are the prefix option, the value the callback computed and the suffix. The hook returns
  whenever the computation of the value does.
\<close>

theorem display_string_assembly:
  "(useCurrencyDisplay K st v opts = Inr (s, p) \<longrightarrow>
      s = (case prefix_part p of None \<Rightarrow> [] | Some x \<Rightarrow> x) @ template_string (value_part p) @
          (case suffix_part p of None \<Rightarrow> [] | Some x \<Rightarrow> if x = [] then [] else '' '' @ x) \<and>
      prefix_part p = prefix opts \<and>
      useCurrencyDisplay_value K st v opts = Inr (value_part p) \<and>
      suffix_part p = useCurrencyDisplay_suffix K opts) \<and>
   ((\<exists>val. useCurrencyDisplay_value K st v opts = Inr val) \<longrightarrow>
      (\<exists>s' p'. useCurrencyDisplay K st v opts = Inr (s', p')))"
proof -
  have pre: "the (or_string (prefix opts) (Some [])) = (case prefix opts of None \<Rightarrow> [] | Some x \<Rightarrow> x)"
    by (simp add: or_string_def truthy_string_def split: option.splits)
  have sfx: "(if truthy_string x then '' '' @ the x else []) =
             (case x of None \<Rightarrow> [] | Some y \<Rightarrow> if y = [] then [] else '' '' @ y)" for x
    by (simp add: truthy_string_def split: option.splits)
  show ?thesis
    by (auto simp: useCurrencyDisplay_Inr pre sfx)
qed

theorem display_string_assembly_witness:
  "useCurrencyDisplay spec_collaborators example_store ''0xde0b6b3a7640000''
     (example_options\<lparr>prefix := Some ''~''\<rparr>) =
   Inr (''~1 ETH'', \<lparr>prefix_part = Some ''~'', value_part = Some ''1'', suffix_part = Some ''ETH''\<rparr>) \<and>
   ''~1 ETH'' = ''~'' @ template_string (Some ''1'') @ '' '' @ ''ETH'' \<and>
   useCurrencyDisplay_value spec_collaborators example_store ''0xde0b6b3a7640000''
     (example_options\<lparr>prefix := Some ''~''\<rparr>) = Inr (Some ''1'')"
proof -
  let ?o = "example_options\<lparr>prefix := Some ''~''\<rparr>"
  let ?p = "\<lparr>prefix_part = Some ''~'', value_part = Some ''1'', suffix_part = Some ''ETH''\<rparr>"
  have r: "useCurrencyDisplay spec_collaborators example_store ''0xde0b6b3a7640000'' ?o =
           Inr (''~1 ETH'', ?p)"
    by code_simp
  show ?thesis
    using r display_string_assembly [of spec_collaborators example_store
        "''0xde0b6b3a7640000''" ?o "''~1 ETH''" ?p]
    by (simp add: template_string_def)
qed

subsection \<open>The number of decimals\<close>





subsection \<open>The minimum display amount\<close>


lemma digitValue_not_space: "digitValue c = Some d \<Longrightarrow> \<not> isStrWhiteSpaceChar c"
  by (auto simp: digitValue_def isStrWhiteSpaceChar_def Let_def split: if_splits)

lemma parseDigitsAcc_digits:
  "parseDigitsAcc b acc ds = Some n \<Longrightarrow> c \<in> set ds \<Longrightarrow> \<exists>d. digitValue c = Some d"
  by (induction ds arbitrary: acc) (auto split: option.splits if_splits)

lemma parseDigitsAcc_zero:
  "parseDigitsAcc b acc ds = Some n \<Longrightarrow>
   n = 0 \<longleftrightarrow> acc = 0 \<and> (\<forall>c\<in>set ds. digitValue c = Some 0)"
proof (induction ds arbitrary: acc)
  case Nil
  then show ?case by simp
next
  case (Cons c cs)
  from Cons.prems obtain d where d: "digitValue c = Some d" "d < b"
    and rest: "parseDigitsAcc b (acc * b + d) cs = Some n"
    by (auto split: option.splits if_splits)
  from Cons.IH [OF rest]
  have "n = 0 \<longleftrightarrow> acc * b + d = 0 \<and> (\<forall>c\<in>set cs. digitValue c = Some 0)" .
  moreover have "acc * b + d = 0 \<longleftrightarrow> acc = 0 \<and> d = 0"
    using d(2) by auto
  ultimately show ?case
    using d(1) by auto
qed

lemma trimString_id:
  assumes "s \<noteq> []" and "\<not> isStrWhiteSpaceChar (hd s)" and "\<not> isStrWhiteSpaceChar (last s)"
  shows "trimString s = s"
proof -
  have front: "dropWhile isStrWhiteSpaceChar s = s"
    using assms(1,2) by (cases s) simp_all
  obtain x xs where r: "rev s = x # xs" and x: "x = last s"
    using assms(1) by (cases s rule: rev_cases) auto
  have "dropWhile isStrWhiteSpaceChar (rev s) = rev s"
    using assms(3) by (simp add: r x [symmetric])
  with front show ?thesis
    by (simp add: trimString_def)
qed

lemma Number_hex_literal:
  assumes "parseDigits 16 ds = Some n"
  shows "Number (''0x'' @ ds) = Finite False n 0"
proof -
  from assms have ne: "ds \<noteq> []" and acc: "parseDigitsAcc 16 0 ds = Some n"
    by (auto simp: parseDigits_def split: if_splits)
  have "last ds \<in> set ds"
    using ne by simp
  then obtain d where "digitValue (last ds) = Some d"
    using parseDigitsAcc_digits [OF acc] by blast
  then have "\<not> isStrWhiteSpaceChar (last (''0x'' @ ds))"
    using ne by (simp add: digitValue_not_space)
  moreover have "\<not> isStrWhiteSpaceChar (hd (''0x'' @ ds))"
    by (simp add: isStrWhiteSpaceChar_def)
  ultimately have "trimString (''0x'' @ ds) = ''0x'' @ ds"
    by (intro trimString_id) simp_all
  then show ?thesis
    using assms by (simp add: Number_def)
qed

lemma Number_hex_literal_nonzero:
  assumes "parseDigits 16 ds = Some n"
  shows "strictNotEqualZero (Number (''0x'' @ ds)) \<longleftrightarrow> (\<exists>c\<in>set ds. digitValue c \<noteq> Some 0)"
proof -
  from assms have acc: "parseDigitsAcc 16 0 ds = Some n"
    by (auto simp: parseDigits_def split: if_splits)
  show ?thesis
    unfolding Number_hex_literal [OF assms]
    using parseDigitsAcc_zero [OF acc]
    by (auto simp: strictNotEqualZero_def)
qed





text \<open>
  C3: with no truthy \<^verbatim>\<open>displayValue\<close>, on the native conversion path, for an input that
  \<^verbatim>\<open>Number\<close> reads as 0, the hook returns and the value of its parts is the text the
  \<^verbatim>\<open>Numeric\<close> chain prints, whatever it is: \<^verbatim>\<open>MIN_DISPLAY_AMOUNT\<close> is not put in its place,
  and a \<^verbatim>\<open>0\<close> stays \<^verbatim>\<open>0\<close>.
\<close>

theorem zero_input_not_replaced:
  assumes "\<not> truthy_string (displayValue opts)"
    and "currency opts = nativeCurrency st \<or>
         (currency opts \<noteq> currentCurrency st \<and> \<not> truthy_string (nativeCurrency st))"
    and "\<not> strictNotEqualZero (Number v)"
    and "ethDisplayValue K v
           (the (or_string (denomination opts) (Some (EtherDenomination_ETH K))))
           (or_int (numberOfDecimals opts) DEFAULT_PRECISION_DECIMALS) = Inr e"
  shows "\<exists>s p. useCurrencyDisplay K st v opts = Inr (s, p) \<and> value_part p = Some e"
proof -
  have "nativeDisplayValue K v
          (the (or_string (denomination opts) (Some (EtherDenomination_ETH K))))
          (or_int (numberOfDecimals opts) DEFAULT_PRECISION_DECIMALS) = Inr e"
    using assms(3,4) by (simp add: nativeDisplayValue_def)
  then have "useCurrencyDisplay_value K st v opts = Inr (Some e)"
    using value_native [OF assms(1,2), of K v] by simp
  then show ?thesis
    by (simp add: useCurrencyDisplay_Inr)
qed

theorem zero_input_not_replaced_witness:
  "\<not> strictNotEqualZero (Number ''0x0'') \<and>
   ethDisplayValue spec_collaborators ''0x0'' ''ETH'' 6 = Inr ''0'' \<and>
   (\<exists>s p. useCurrencyDisplay spec_collaborators example_store ''0x0'' example_options =
            Inr (s, p) \<and> value_part p = Some ''0'')"
proof -
  have a: "\<not> truthy_string (displayValue example_options)"
    by (simp add: example_options_def truthy_string_def)
  have b: "currency example_options = nativeCurrency example_store \<or>
           (currency example_options \<noteq> currentCurrency example_store \<and>
            \<not> truthy_string (nativeCurrency example_store))"
    by (simp add: example_options_def example_store_def)
  have c: "\<not> strictNotEqualZero (Number ''0x0'')"
    by code_simp
  have d: "ethDisplayValue spec_collaborators ''0x0''
             (the (or_string (denomination example_options)
                (Some (EtherDenomination_ETH spec_collaborators))))
             (or_int (numberOfDecimals example_options) DEFAULT_PRECISION_DECIMALS) = Inr ''0''"
    by code_simp
  have e: "ethDisplayValue spec_collaborators ''0x0'' ''ETH'' 6 = Inr ''0''"
    by code_simp
  show ?thesis
    using zero_input_not_replaced [OF a b c d] c e by simp
qed

end
